theory Spec2Isabelle
  imports Main "HOL-Library.AList"
begin

section \<open>Python values, exceptions and setting documents\<close>

text \<open>
  The settings model of \<^verbatim>\<open>girder/models/setting.py\<close> stores documents
  \<^verbatim>\<open>{'_id': ..., 'key': ..., 'value': ...}\<close> in one MongoDB collection. A value is any
  JSON-like Python object. Floating-point values are left out of the model. Strings are
  sequences of 8-bit characters; the string operations below are those of Python on ASCII
  strings (\<open>ascii\<close>), and every statement about them is made for ASCII strings only.
\<close>

type_synonym objectid = nat

datatype pyval =
    PNone
  | PBool bool
  | PInt int
  | PStr string
  | PList "pyval list"
  | PDict "(string \<times> pyval) list"
  | PObjectId string

text \<open>
  Modelled from the spec: \<^verbatim>\<open>ValidationException\<close> of \<^verbatim>\<open>model_base\<close> is not among the sources.
  A validation error carries a human-readable message and the offending field name; the
  field is optional here, since the source also raises the exception with the message
  alone. The other exceptions are Python's and pymongo's own.
\<close>

datatype error =
    ValidationException string "string option"
  | TypeError
  | ValueError
  | AttributeError
  | KeyError
  | IndexError
  | OperationFailure
  | DuplicateKeyError

text \<open>
  A setting document as the Python code holds it: a dict with the entries \<^verbatim>\<open>key\<close> and
  \<^verbatim>\<open>value\<close>, and \<^verbatim>\<open>_id\<close> once the document has been stored.
\<close>

record setting =
  doc_id :: "objectid option"
  doc_key :: string
  doc_value :: pyval

section \<open>String operations of Python\<close>

definition dq :: string where
  "dq = [CHR 0x22]"

text \<open>
  ASCII strings: every character has its eighth bit clear. On these strings the
  operations of this section are Python's. \<^verbatim>\<open>str.upper\<close>, \<^verbatim>\<open>str.lower\<close>, \<^verbatim>\<open>str.split\<close>,
  \<^verbatim>\<open>str.strip\<close> and \<^verbatim>\<open>int\<close> treat characters outside ASCII in ways that are not modelled
  (further letters with case, further whitespace, further digits).
\<close>

definition ascii :: "string \<Rightarrow> bool" where
  "ascii s = list_all (\<lambda>c. \<not> digit7 c) s"

definition ascii_lowercase :: string where
  "ascii_lowercase = ''abcdefghijklmnopqrstuvwxyz''"

definition ascii_uppercase :: string where
  "ascii_uppercase = ''ABCDEFGHIJKLMNOPQRSTUVWXYZ''"

definition upper_char :: "char \<Rightarrow> char" where
  "upper_char c =
     (case map_of (zip ascii_lowercase ascii_uppercase) c of Some d \<Rightarrow> d | None \<Rightarrow> c)"

definition lower_char :: "char \<Rightarrow> char" where
  "lower_char c =
     (case map_of (zip ascii_uppercase ascii_lowercase) c of Some d \<Rightarrow> d | None \<Rightarrow> c)"

definition py_upper :: "string \<Rightarrow> string" where
  "py_upper s = map upper_char s"

definition py_lower :: "string \<Rightarrow> string" where
  "py_lower s = map lower_char s"

text \<open>The ASCII characters that \<^verbatim>\<open>str.isspace\<close> accepts.\<close>

definition isspace :: "char \<Rightarrow> bool" where
  "isspace c =
     (c \<in> set [CHR '' '', CHR 0x09, CHR 0x0A, CHR 0x0B, CHR 0x0C, CHR 0x0D,
                CHR 0x1C, CHR 0x1D, CHR 0x1E, CHR 0x1F])"

text \<open>\<^verbatim>\<open>s.strip()\<close>: leading and trailing whitespace removed.\<close>

definition py_strip :: "string \<Rightarrow> string" where
  "py_strip s = rev (dropWhile isspace (rev (dropWhile isspace s)))"

text \<open>\<^verbatim>\<open>s.replace(old, new)\<close> for one-character \<open>old\<close> and \<open>new\<close>.\<close>

definition py_replace :: "char \<Rightarrow> char \<Rightarrow> string \<Rightarrow> string" where
  "py_replace old new s = map (\<lambda>c. if c = old then new else c) s"

text \<open>
  The maximal runs of characters that are not separators, left to right; \<open>cur\<close> is the
  run being read, reversed. \<^verbatim>\<open>s.split()\<close> without arguments is the case where the
  separators are the whitespace characters: empty strings never appear in its result.
\<close>

fun split_runs :: "(char \<Rightarrow> bool) \<Rightarrow> string \<Rightarrow> string \<Rightarrow> string list" where
  "split_runs sep cur [] = (if cur = [] then [] else [rev cur])"
| "split_runs sep cur (c # cs) =
     (if sep c then (if cur = [] then split_runs sep [] cs else rev cur # split_runs sep [] cs)
      else split_runs sep (c # cur) cs)"

definition py_split :: "string \<Rightarrow> string list" where
  "py_split s = split_runs isspace [] s"

text \<open>\<^verbatim>\<open>sep.join(xs)\<close>.\<close>

fun py_join :: "string \<Rightarrow> string list \<Rightarrow> string" where
  "py_join sep [] = []"
| "py_join sep [x] = x"
| "py_join sep (x # y # ys) = x @ sep @ py_join sep (y # ys)"

text \<open>
  \<^verbatim>\<open>list(OrderedDict.fromkeys(xs))\<close>: the keys in the order of their first insertion; a key
  that is already present keeps its place.
\<close>

definition fromkeys :: "'a list \<Rightarrow> 'a list" where
  "fromkeys xs = foldl (\<lambda>keys x. if x \<in> set keys then keys else keys @ [x]) [] xs"

subsection \<open>The built-in \<^verbatim>\<open>int\<close>\<close>

definition digit_value :: "char \<Rightarrow> nat option" where
  "digit_value c = map_of (zip ''0123456789'' [0, 1, 2, 3, 4, 5, 6, 7, 8, 9]) c"

text \<open>
  The digits of a numeral, most significant first, with the value read so far. Since
  Python 3.6 a single underscore may stand between two digits; \<open>after_digit\<close> says that
  the last character read was a digit.
\<close>

fun digits_value :: "nat \<Rightarrow> bool \<Rightarrow> string \<Rightarrow> nat option" where
  "digits_value acc after_digit [] = (if after_digit then Some acc else None)"
| "digits_value acc after_digit (c # cs) =
     (if c = CHR ''_'' then (if after_digit then digits_value acc False cs else None)
      else (case digit_value c of
              None \<Rightarrow> None
            | Some d \<Rightarrow> digits_value (10 * acc + d) True cs))"

definition parse_digits :: "string \<Rightarrow> nat option" where
  "parse_digits s = digits_value 0 False s"

text \<open>
  The whitespace that \<^verbatim>\<open>int\<close> ignores around a numeral: in the ASCII range these are the
  six characters of C's \<^verbatim>\<open>isspace\<close>, without the separators \<^verbatim>\<open>0x1C\<close> to \<^verbatim>\<open>0x1F\<close> that
  \<^verbatim>\<open>str.isspace\<close> accepts.
\<close>

definition int_space :: "char \<Rightarrow> bool" where
  "int_space c = (c \<in> set [CHR '' '', CHR 0x09, CHR 0x0A, CHR 0x0B, CHR 0x0C, CHR 0x0D])"

text \<open>
  \<^verbatim>\<open>int(s)\<close> for a string: surrounding whitespace is ignored, then an optional sign and
  at least one decimal digit must remain. \<open>None\<close> stands for \<^verbatim>\<open>ValueError\<close>.
\<close>

definition int_of_string :: "string \<Rightarrow> int option" where
  "int_of_string s =
     (case rev (dropWhile int_space (rev (dropWhile int_space s))) of
        [] \<Rightarrow> None
      | c # r \<Rightarrow>
          if c = CHR ''-'' then map_option (\<lambda>n. - int n) (parse_digits r)
          else if c = CHR ''+'' then map_option int (parse_digits r)
          else map_option int (parse_digits (c # r)))"

text \<open>
  \<^verbatim>\<open>int(v)\<close>: an integer or a boolean converts, a string is parsed and raises
  \<^verbatim>\<open>ValueError\<close> when it is no numeral, every other type raises \<^verbatim>\<open>TypeError\<close>.
\<close>

fun py_int :: "pyval \<Rightarrow> error + int" where
  "py_int (PInt n) = Inr n"
| "py_int (PBool b) = Inr (if b then 1 else 0)"
| "py_int (PStr s) = (case int_of_string s of None \<Rightarrow> Inl ValueError | Some n \<Rightarrow> Inr n)"
| "py_int PNone = Inl TypeError"
| "py_int (PList xs) = Inl TypeError"
| "py_int (PDict d) = Inl TypeError"
| "py_int (PObjectId i) = Inl TypeError"

text \<open>\<^verbatim>\<open>v.lower()\<close>: only a string has the method.\<close>

fun lower_method :: "pyval \<Rightarrow> error + pyval" where
  "lower_method (PStr s) = Inr (PStr (py_lower s))"
| "lower_method v = Inl AttributeError"

section \<open>The built-in validators\<close>

text \<open>
  A validator receives the document, normalises its value in place and returns, or
  raises. Here it returns the document as the caller finds it afterwards, or the
  exception.
\<close>

type_synonym validator = "setting \<Rightarrow> error + setting"

definition add_to_group_policies :: "pyval list" where
  "add_to_group_policies =
     [PStr ''never'', PStr ''noadmin'', PStr ''nomod'', PStr ''yesadmin'', PStr ''yesmod'',
      PStr '''']"

definition add_to_group_policy_message :: string where
  "add_to_group_policy_message =
     ''Add to group policy must be one of '' @ dq @ ''never'' @ dq @ '', '' @ dq @ ''noadmin''
       @ dq @ '', '' @ dq @ ''nomod'' @ dq @ '', '' @ dq @ ''yesadmin'' @ dq @ '', or '' @ dq
       @ ''yesmod'' @ dq @ ''.''"

definition validateCoreAddToGroupPolicy :: validator where
  "validateCoreAddToGroupPolicy doc =
     (case lower_method (doc_value doc) of
        Inl e \<Rightarrow> Inl e
      | Inr v \<Rightarrow>
          if v \<notin> set add_to_group_policies
          then Inl (ValidationException add_to_group_policy_message (Some ''value''))
          else Inr (doc\<lparr>doc_value := v\<rparr>))"

definition validateCoreCookieLifetime :: validator where
  "validateCoreCookieLifetime doc =
     (case py_int (doc_value doc) of
        Inl e \<Rightarrow>
          if e = ValueError
          then Inl (ValidationException ''Cookie lifetime must be an integer > 0.'' (Some ''value''))
          else Inl e
      | Inr n \<Rightarrow>
          if n > 0 then Inr (doc\<lparr>doc_value := PInt n\<rparr>)
          else Inl (ValidationException ''Cookie lifetime must be an integer > 0.'' (Some ''value'')))"

definition validateCoreCorsAllowMethods :: validator where
  "validateCoreCorsAllowMethods doc =
     (case doc_value doc of
        PStr s \<Rightarrow>
          (let methods = py_split (py_upper (py_strip (py_replace (CHR '','') (CHR '' '') s)));
               methods = fromkeys methods
           in Inr (doc\<lparr>doc_value := PStr (py_join '', '' methods)\<rparr>))
      | _ \<Rightarrow>
          Inl (ValidationException
                 ''Allowed methods must be a comma-separated list or an empty string.''
                 (Some ''value'')))"

subsection \<open>Collection creation policy\<close>

text \<open>
  The validator looks every listed group and user up (\<^verbatim>\<open>load(id, force=True, exc=True)\<close>,
  which raises when the entity does not exist) and replaces each id by
  \<^verbatim>\<open>ObjectId(id)\<close>. Both collaborators are outside this file and are parameters here:
  \<open>load\<close> returns the exception it raises, if any, and \<open>mk_oid\<close> is the \<^verbatim>\<open>ObjectId\<close>
  constructor.
\<close>

fun normalize_ids ::
  "(pyval \<Rightarrow> error option) \<Rightarrow> (pyval \<Rightarrow> error + pyval) \<Rightarrow> pyval list \<Rightarrow> error + pyval list"
where
  "normalize_ids load mk_oid [] = Inr []"
| "normalize_ids load mk_oid (x # xs) =
     (case load x of
        Some e \<Rightarrow> Inl e
      | None \<Rightarrow>
          (case mk_oid x of
             Inl e \<Rightarrow> Inl e
           | Inr y \<Rightarrow>
               (case normalize_ids load mk_oid xs of
                  Inl e \<Rightarrow> Inl e
                | Inr ys \<Rightarrow> Inr (y # ys))))"

text \<open>
  One of the two loops \<^verbatim>\<open>for i, id in enumerate(value.get(field, ())): ...\<close>. A list is
  normalised element by element. A string iterates over its characters and a dict over
  its keys, but neither supports the assignment \<^verbatim>\<open>value[field][i] = ...\<close> of the first
  round; the other values cannot be iterated.
\<close>

definition normalize_field ::
  "(pyval \<Rightarrow> error option) \<Rightarrow> (pyval \<Rightarrow> error + pyval) \<Rightarrow> string
     \<Rightarrow> (string \<times> pyval) list \<Rightarrow> error + (string \<times> pyval) list"
where
  "normalize_field load mk_oid field d =
     (case map_of d field of
        None \<Rightarrow> Inr d
      | Some (PList xs) \<Rightarrow>
          (case normalize_ids load mk_oid xs of
             Inl e \<Rightarrow> Inl e
           | Inr ys \<Rightarrow> Inr (AList.update field (PList ys) d))
      | Some (PStr s) \<Rightarrow>
          (case s of
             [] \<Rightarrow> Inr d
           | c # _ \<Rightarrow>
               (case load (PStr [c]) of
                  Some e \<Rightarrow> Inl e
                | None \<Rightarrow> (case mk_oid (PStr [c]) of Inl e \<Rightarrow> Inl e | Inr _ \<Rightarrow> Inl TypeError)))
      | Some (PDict m) \<Rightarrow>
          (case m of
             [] \<Rightarrow> Inr d
           | (k, _) # _ \<Rightarrow> (case load (PStr k) of Some e \<Rightarrow> Inl e | None \<Rightarrow> Inl KeyError))
      | Some _ \<Rightarrow> Inl TypeError)"

definition validateCoreCollectionCreatePolicy ::
  "(pyval \<Rightarrow> error option) \<Rightarrow> (pyval \<Rightarrow> error option) \<Rightarrow> (pyval \<Rightarrow> error + pyval) \<Rightarrow> validator"
where
  "validateCoreCollectionCreatePolicy load_group load_user mk_oid doc =
     (case doc_value doc of
        PDict d \<Rightarrow>
          (case normalize_field load_group mk_oid ''groups'' d of
             Inl e \<Rightarrow> Inl e
           | Inr d1 \<Rightarrow>
               (case normalize_field load_user mk_oid ''users'' d1 of
                  Inl e \<Rightarrow> Inl e
                | Inr d2 \<Rightarrow>
                    Inr (doc\<lparr>doc_value :=
                      PDict (AList.update ''open''
                        (case map_of d2 ''open'' of None \<Rightarrow> PBool False | Some v \<Rightarrow> v) d2)\<rparr>)))
      | _ \<Rightarrow>
          Inl (ValidationException ''Collection creation policy must be a JSON object.'' None))"

section \<open>The collection and its collaborators\<close>

text \<open>
  A stored document always has an \<^verbatim>\<open>_id\<close>. MongoDB keeps the documents of a collection in
  their natural order and its indexes by name; \<open>ikey\<close> is the list of (field, direction)
  pairs of an index and \<open>iunique\<close> its \<^verbatim>\<open>unique\<close> option (absent reads as false).
\<close>

record row =
  row_id :: objectid
  row_key :: string
  row_value :: pyval

record index =
  ikey :: "(string \<times> int) list"
  iunique :: bool

record collection =
  documents :: "row list"
  indexes :: "(string \<times> index) list"

text \<open>
  An operation on the collection returns its result or the exception it raised, together
  with the collection as the operation leaves it.
\<close>

type_synonym 'a result = "(error + 'a) \<times> collection"

text \<open>
  What the model is configured with, all of it defined outside this file: the table
  \<^verbatim>\<open>SettingDefault.defaults\<close>, the validators and the default functions registered with
  \<^verbatim>\<open>setting_utilities\<close>, and the ambient request context that a default function may read.
\<close>

record 'c environment =
  setting_defaults :: "string \<rightharpoonup> pyval"
  validators :: "string \<rightharpoonup> validator"
  default_functions :: "string \<rightharpoonup> ('c \<Rightarrow> pyval)"
  request :: 'c

text \<open>
  Modelled from the spec: the registry of \<^verbatim>\<open>setting_utilities\<close> is not among the sources;
  \<^verbatim>\<open>getValidator(key)\<close> and \<^verbatim>\<open>getDefaultFunction(key)\<close> return the function registered for
  the key, or none.
\<close>

definition getValidator :: "'c environment \<Rightarrow> string \<Rightarrow> validator option" where
  "getValidator env key = validators env key"

definition getDefaultFunction :: "'c environment \<Rightarrow> string \<Rightarrow> ('c \<Rightarrow> pyval) option" where
  "getDefaultFunction env key = default_functions env key"

definition to_doc :: "row \<Rightarrow> setting" where
  "to_doc r = \<lparr>doc_id = Some (row_id r), doc_key = row_key r, doc_value = row_value r\<rparr>"

text \<open>
  Modelled from the spec: the document store of \<^verbatim>\<open>model_base\<close> is not among the sources.
  \<^verbatim>\<open>find(filter)\<close> returns the matching documents and \<^verbatim>\<open>findOne(filter)\<close> the first of
  them or none; the only filter this file uses is \<^verbatim>\<open>{'key': key}\<close>.
\<close>

definition find_settings :: "collection \<Rightarrow> string \<Rightarrow> setting list" where
  "find_settings coll key = map to_doc (filter (\<lambda>r. row_key r = key) (documents coll))"

definition findOne :: "collection \<Rightarrow> string \<Rightarrow> setting option" where
  "findOne coll key = (case find_settings coll key of [] \<Rightarrow> None | d # _ \<Rightarrow> Some d)"

text \<open>\<^verbatim>\<open>delete_one({'_id': i})\<close> of pymongo: the first document with that id goes.\<close>

fun delete_one :: "objectid \<Rightarrow> row list \<Rightarrow> row list" where
  "delete_one i [] = []"
| "delete_one i (r # rs) = (if row_id r = i then rs else r # delete_one i rs)"

text \<open>
  Modelled from the spec: \<^verbatim>\<open>remove(document)\<close> of the document store deletes the stored
  document that has the identity of the given one. A document that was never stored has
  no \<^verbatim>\<open>_id\<close> to look up, and the call raises; the documents that \<^verbatim>\<open>unset\<close> removes come from
  \<^verbatim>\<open>find\<close> and have one.
\<close>

definition remove :: "setting \<Rightarrow> collection \<Rightarrow> unit result" where
  "remove doc coll =
     (case doc_id doc of
        None \<Rightarrow> (Inl KeyError, coll)
      | Some i \<Rightarrow> (Inr (), coll\<lparr>documents := delete_one i (documents coll)\<rparr>))"

text \<open>
  A unique index on the single field \<^verbatim>\<open>key\<close> makes MongoDB refuse a second document with
  the same key.
\<close>

definition key_unique_enforced :: "collection \<Rightarrow> bool" where
  "key_unique_enforced coll =
     list_ex (\<lambda>(name, ix). iunique ix \<and> map fst (ikey ix) = [''key'']) (indexes coll)"

text \<open>
  A collection that does not exist yet has no index. The server creates it on the first
  write or index creation, and every collection it creates has the index \<^verbatim>\<open>_id_\<close>.
\<close>

definition id_index :: index where
  "id_index = \<lparr>ikey = [(''_id'', 1)], iunique = False\<rparr>"

definition implicit_create :: "(string \<times> index) list \<Rightarrow> (string \<times> index) list" where
  "implicit_create ixs = (if ixs = [] then [(''_id_'', id_index)] else ixs)"

text \<open>
  \<^verbatim>\<open>insert_one\<close> of pymongo for a document without \<^verbatim>\<open>_id\<close>: the driver generates the id
  \<open>new_id\<close>, and the server refuses a duplicate of an id or of a uniquely indexed key.
\<close>

definition insert_one :: "objectid \<Rightarrow> setting \<Rightarrow> collection \<Rightarrow> setting result" where
  "insert_one new_id doc coll =
     (if new_id \<in> set (map row_id (documents coll)) then (Inl DuplicateKeyError, coll)
      else if key_unique_enforced coll \<and> doc_key doc \<in> set (map row_key (documents coll))
      then (Inl DuplicateKeyError, coll)
      else (Inr (doc\<lparr>doc_id := Some new_id\<rparr>),
            \<lparr>documents = documents coll
               @ [\<lparr>row_id = new_id, row_key = doc_key doc, row_value = doc_value doc\<rparr>],
             indexes = implicit_create (indexes coll)\<rparr>))"

fun replace_row :: "row \<Rightarrow> row list \<Rightarrow> row list" where
  "replace_row new [] = []"
| "replace_row new (r # rs) = (if row_id r = row_id new then new # rs else r # replace_row new rs)"

text \<open>
  \<^verbatim>\<open>replace_one({'_id': i}, doc, upsert=True)\<close> of pymongo: the document with that id is
  replaced where it stands, or the new one is added when there is none.
\<close>

definition replace_one :: "objectid \<Rightarrow> setting \<Rightarrow> collection \<Rightarrow> setting result" where
  "replace_one i doc coll =
     (let new = \<lparr>row_id = i, row_key = doc_key doc, row_value = doc_value doc\<rparr>;
          others = filter (\<lambda>r. row_id r \<noteq> i) (documents coll)
      in if key_unique_enforced coll \<and> doc_key doc \<in> set (map row_key others)
         then (Inl DuplicateKeyError, coll)
         else if i \<in> set (map row_id (documents coll))
         then (Inr doc, coll\<lparr>documents := replace_row new (documents coll)\<rparr>)
         else (Inr doc, \<lparr>documents = documents coll @ [new],
                         indexes = implicit_create (indexes coll)\<rparr>))"

section \<open>The settings model\<close>

text \<open>\<^verbatim>\<open>Setting.validate\<close>.\<close>

definition validate :: "'c environment \<Rightarrow> setting \<Rightarrow> error + setting" where
  "validate env doc =
     (let key = doc_key doc in
      case getValidator env key of
        Some validator \<Rightarrow> (case validator doc of Inl e \<Rightarrow> Inl e | Inr doc' \<Rightarrow> Inr doc')
      | None \<Rightarrow>
          Inl (ValidationException (''Invalid setting key '' @ dq @ key @ dq @ ''.'')
                 (Some ''key'')))"

text \<open>
  Modelled from the spec: \<^verbatim>\<open>save(document)\<close> of \<^verbatim>\<open>model_base\<close> is not among the sources.
  It passes the candidate document through \<^verbatim>\<open>validate\<close> before persisting, then inserts
  the document or updates the stored one, and returns the persisted document with its
  identity assigned; when validation fails the document is never saved.
\<close>

definition save :: "'c environment \<Rightarrow> objectid \<Rightarrow> setting \<Rightarrow> collection \<Rightarrow> setting result" where
  "save env new_id doc coll =
     (case validate env doc of
        Inl e \<Rightarrow> (Inl e, coll)
      | Inr doc' \<Rightarrow>
          (case doc_id doc' of
             None \<Rightarrow> insert_one new_id doc' coll
           | Some i \<Rightarrow> replace_one i doc' coll))"

text \<open>\<^verbatim>\<open>Setting.getDefault\<close>.\<close>

definition getDefault :: "'c environment \<Rightarrow> string \<Rightarrow> pyval" where
  "getDefault env key =
     (case setting_defaults env key of
        Some v \<Rightarrow> v
      | None \<Rightarrow>
          (case getDefaultFunction env key of
             Some fn \<Rightarrow> fn (request env)
           | None \<Rightarrow> PNone))"

text \<open>
  \<^verbatim>\<open>Setting.get\<close> declares \<^verbatim>\<open>default='__default__'\<close> and tests \<^verbatim>\<open>default is '__default__'\<close>:
  the test is on the identity of the object, not on its contents. CPython interns the
  string constants that look like identifiers, so the constant of the signature, the
  constant of the test and a constant \<^verbatim>\<open>'__default__'\<close> written in a caller's code are one
  object, \<open>DefaultConstant\<close>. Every other object is \<open>Object v\<close> with its value \<open>v\<close>; that
  includes a string with the contents \<^verbatim>\<open>__default__\<close> that was built at run time (read
  from a request or from JSON), which is equal to the constant but not identical to it.
\<close>

datatype pyobj = DefaultConstant | Object pyval

fun obj_value :: "pyobj \<Rightarrow> pyval" where
  "obj_value DefaultConstant = PStr ''__default__''"
| "obj_value (Object v) = v"

text \<open>
  An argument of a parameter that has a default value: the caller leaves it out, and the
  parameter is bound to the default of the signature, or passes an object.
\<close>

datatype 'a arg = Omitted | Passed 'a

definition get :: "'c environment \<Rightarrow> collection \<Rightarrow> string \<Rightarrow> pyobj arg \<Rightarrow> pyval" where
  "get env coll key default_arg =
     (let default = (case default_arg of Omitted \<Rightarrow> DefaultConstant | Passed obj \<Rightarrow> obj) in
      case findOne coll key of
        None \<Rightarrow> if default = DefaultConstant then getDefault env key else obj_value default
      | Some setting \<Rightarrow> doc_value setting)"

text \<open>\<^verbatim>\<open>Setting.set\<close>; \<open>new_id\<close> is the id the driver generates if the document is new.\<close>

definition set_setting ::
  "'c environment \<Rightarrow> objectid \<Rightarrow> collection \<Rightarrow> string \<Rightarrow> pyval \<Rightarrow> setting result"
where
  "set_setting env new_id coll key v =
     (let setting =
            (case findOne coll key of
               None \<Rightarrow> \<lparr>doc_id = None, doc_key = key, doc_value = v\<rparr>
             | Some found \<Rightarrow> found\<lparr>doc_value := v\<rparr>)
      in save env new_id setting coll)"

text \<open>\<^verbatim>\<open>Setting.unset\<close>: every document found is removed, one after the other.\<close>

fun remove_each :: "setting list \<Rightarrow> collection \<Rightarrow> unit result" where
  "remove_each [] coll = (Inr (), coll)"
| "remove_each (d # ds) coll =
     (case remove d coll of
        (Inl e, coll') \<Rightarrow> (Inl e, coll')
      | (Inr _, coll') \<Rightarrow> remove_each ds coll')"

definition unset :: "collection \<Rightarrow> string \<Rightarrow> unit result" where
  "unset coll key = remove_each (find_settings coll key) coll"

section \<open>Index repair\<close>

text \<open>
  \<^verbatim>\<open>index_information()\<close> of pymongo returns the indexes by name and raises
  \<^verbatim>\<open>OperationFailure\<close> when the server cannot answer; whether it can is not a matter of
  the collection's contents, so it is the parameter \<open>unavailable\<close>.
\<close>

definition index_information :: "bool \<Rightarrow> collection \<Rightarrow> error + (string \<times> index) list" where
  "index_information unavailable coll =
     (if unavailable then Inl OperationFailure else Inr (indexes coll))"

text \<open>
  The first loop of \<^verbatim>\<open>Setting.reconnect\<close>: it stops at the first unique index whose leading
  field is \<^verbatim>\<open>key\<close> and collects the names of the other indexes that lead with \<^verbatim>\<open>key\<close>.
  \<^verbatim>\<open>indices[index]['key'][0]\<close> raises \<^verbatim>\<open>IndexError\<close> on an empty field list.
\<close>

fun scan_indices :: "(string \<times> index) list \<Rightarrow> string list \<Rightarrow> error + bool \<times> string list" where
  "scan_indices [] presentKeyIndices = Inr (False, presentKeyIndices)"
| "scan_indices ((name, ix) # rest) presentKeyIndices =
     (case ikey ix of
        [] \<Rightarrow> Inl IndexError
      | (field, _) # _ \<Rightarrow>
          if field = ''key''
          then (if iunique ix then Inr (True, presentKeyIndices)
                else scan_indices rest (presentKeyIndices @ [name]))
          else scan_indices rest presentKeyIndices)"

text \<open>\<^verbatim>\<open>drop_index(name)\<close> of pymongo raises when there is no index of that name.\<close>

definition drop_index :: "string \<Rightarrow> collection \<Rightarrow> unit result" where
  "drop_index name coll =
     (if name \<in> set (map fst (indexes coll))
      then (Inr (), coll\<lparr>indexes := filter (\<lambda>(n, ix). n \<noteq> name) (indexes coll)\<rparr>)
      else (Inl OperationFailure, coll))"

fun drop_each :: "string list \<Rightarrow> collection \<Rightarrow> unit result" where
  "drop_each [] coll = (Inr (), coll)"
| "drop_each (name # names) coll =
     (case drop_index name coll of
        (Inl e, coll') \<Rightarrow> (Inl e, coll')
      | (Inr _, coll') \<Rightarrow> drop_each names coll')"

text \<open>
  The aggregation of \<^verbatim>\<open>Setting.reconnect\<close>: the documents grouped by key, each group with
  its key, the set of its ids (\<^verbatim>\<open>$addToSet\<close>) and its size, and only the groups of more
  than one document kept.
\<close>

record duplicate =
  dup_key :: string
  dup_ids :: "objectid list"
  dup_count :: nat

definition group_of :: "row list \<Rightarrow> string \<Rightarrow> duplicate" where
  "group_of rows k =
     (let members = filter (\<lambda>r. row_key r = k) rows
      in \<lparr>dup_key = k, dup_ids = remdups (map row_id members), dup_count = length members\<rparr>)"

definition aggregate_duplicates :: "row list \<Rightarrow> duplicate list" where
  "aggregate_duplicates rows =
     filter (\<lambda>g. dup_count g > 1) (map (group_of rows) (remdups (map row_key rows)))"

text \<open>
  The body of the loop over the duplicates: every id but the lowest,
  \<^verbatim>\<open>sorted(duplicate['ids'])[1:]\<close>, is deleted.
\<close>

definition remove_duplicate :: "row list \<Rightarrow> duplicate \<Rightarrow> row list" where
  "remove_duplicate rows g = foldl (\<lambda>rs i. delete_one i rs) rows (tl (sort (dup_ids g)))"

definition key_index :: index where
  "key_index = \<lparr>ikey = [(''key'', 1)], iunique = True\<rparr>"

text \<open>
  \<^verbatim>\<open>create_index('key', unique=True)\<close> of pymongo: the index gets the generated name
  \<^verbatim>\<open>key_1\<close>. The call does nothing when that very index exists, and the server refuses
  it when the name or the field list is taken by a different index, or when two
  documents have the same key. On a collection that does not exist yet the call creates
  the collection, with its index \<^verbatim>\<open>_id_\<close>, as well.
\<close>

definition create_index_key_unique :: "collection \<Rightarrow> string result" where
  "create_index_key_unique coll =
     (case map_of (indexes coll) ''key_1'' of
        Some ix \<Rightarrow> if ix = key_index then (Inr ''key_1'', coll) else (Inl OperationFailure, coll)
      | None \<Rightarrow>
          if list_ex (\<lambda>(n, ix). ikey ix = ikey key_index) (indexes coll)
          then (Inl OperationFailure, coll)
          else if \<not> distinct (map row_key (documents coll)) then (Inl DuplicateKeyError, coll)
          else (Inr ''key_1'',
                coll\<lparr>indexes := implicit_create (indexes coll) @ [(''key_1'', key_index)]\<rparr>))"

text \<open>
  Modelled from the spec: \<^verbatim>\<open>Model.reconnect\<close> of \<^verbatim>\<open>model_base\<close>, which
  \<^verbatim>\<open>Setting.reconnect\<close> calls first, is not among the sources. The settings model declares
  no index of its own, and the repair starts by inspecting the existing indices: the
  call leaves the stored documents and indexes as they are.
\<close>

definition model_reconnect :: "collection \<Rightarrow> collection" where
  "model_reconnect coll = coll"

text \<open>
  \<^verbatim>\<open>Setting.reconnect\<close>. The warning it logs for each group of duplicates has no effect on
  the collection and is left out.
\<close>

definition reconnect :: "bool \<Rightarrow> collection \<Rightarrow> unit result" where
  "reconnect unavailable coll0 =
     (let coll = model_reconnect coll0 in
      case (case index_information unavailable coll of
              Inl e \<Rightarrow> if e = OperationFailure then Inr [] else Inl e
            | Inr indices \<Rightarrow> Inr indices) of
        Inl e \<Rightarrow> (Inl e, coll)
      | Inr indices \<Rightarrow>
          (case scan_indices indices [] of
             Inl e \<Rightarrow> (Inl e, coll)
           | Inr (hasUniqueKeyIndex, presentKeyIndices) \<Rightarrow>
               if \<not> hasUniqueKeyIndex
               then (case drop_each presentKeyIndices coll of
                       (Inl e, coll1) \<Rightarrow> (Inl e, coll1)
                     | (Inr _, coll1) \<Rightarrow>
                         (let duplicates = aggregate_duplicates (documents coll1);
                              coll2 = coll1\<lparr>documents :=
                                        foldl remove_duplicate (documents coll1) duplicates\<rparr>
                          in case create_index_key_unique coll2 of
                               (Inl e, coll3) \<Rightarrow> (Inl e, coll3)
                             | (Inr _, coll3) \<Rightarrow> (Inr (), coll3)))
               else (Inr (), coll)))"

section \<open>Notions used in the statements\<close>

text \<open>
  The normal form of a list of methods in the words of the specification: the value is
  split on commas and whitespace, the tokens are upper-cased, duplicates are removed
  preserving the first-seen order, and the result is joined with a comma and a space.
\<close>

fun dedup_first :: "'a list \<Rightarrow> 'a list" where
  "dedup_first [] = []"
| "dedup_first (x # xs) = x # dedup_first (removeAll x xs)"

definition comma_or_space :: "char \<Rightarrow> bool" where
  "comma_or_space c = (c = CHR '','' \<or> isspace c)"

definition normalized_methods :: "string \<Rightarrow> string" where
  "normalized_methods s =
     py_join '', '' (dedup_first (map py_upper (split_runs comma_or_space [] s)))"









section \<open>Sample data\<close>

text \<open>
  A registry with one static default, two validators (the second accepts any value, as
  \<^verbatim>\<open>validateCoreSmtpUsername\<close> does) and one default function, and a collection from
  before the unique index: two keys are stored twice.
\<close>

definition sample_env :: "unit environment" where
  "sample_env =
     \<lparr>setting_defaults = [''core.cookie_lifetime'' \<mapsto> PInt 180],
      validators = [''core.cookie_lifetime'' \<mapsto> validateCoreCookieLifetime,
                    ''core.smtp.username'' \<mapsto> Inr],
      default_functions = [''core.email_host'' \<mapsto> (\<lambda>_. PStr ''http://localhost'')],
      request = ()\<rparr>"

definition sample_collection :: collection where
  "sample_collection =
     \<lparr>documents = [\<lparr>row_id = 5, row_key = ''core.cookie_lifetime'', row_value = PInt 30\<rparr>,
                   \<lparr>row_id = 2, row_key = ''legacy'', row_value = PStr ''a''\<rparr>,
                   \<lparr>row_id = 3, row_key = ''core.cookie_lifetime'', row_value = PInt 60\<rparr>,
                   \<lparr>row_id = 7, row_key = ''legacy'', row_value = PStr ''b''\<rparr>],
      indexes = [(''_id_'', \<lparr>ikey = [(''_id'', 1)], iunique = False\<rparr>),
                 (''key_1'', \<lparr>ikey = [(''key'', 1)], iunique = False\<rparr>)]\<rparr>"





section \<open>Normalising a list of methods\<close>

text \<open>
  The source upper-cases the whole string after replacing the commas and stripping it,
  and splits last; the lemmas below bring this to the order of the specification.
\<close>

text \<open>
  What \<open>split_runs\<close> returns: no token is empty, no token contains a separator, and the
  tokens together are the characters of the string that are not separators, in order.
\<close>

lemma concat_split_runs:
  "concat (split_runs sep cur s) = rev cur @ filter (\<lambda>c. \<not> sep c) s"
proof (induction s arbitrary: cur)
  case Nil
  show ?case by simp
next
  case (Cons c s)
  from Cons [of "[]"] Cons [of "c # cur"] show ?case by simp
qed

lemma split_runs_tokens:
  "\<forall>c \<in> set cur. \<not> sep c \<Longrightarrow> t \<in> set (split_runs sep cur s) \<Longrightarrow>
     t \<noteq> [] \<and> (\<forall>c \<in> set t. \<not> sep c)"
proof (induction s arbitrary: cur)
  case Nil
  then have "cur \<noteq> []" "t = rev cur" by (simp_all split: if_splits)
  with Nil.prems(1) show ?case by simp
next
  case (Cons c s)
  show ?case
  proof (cases "sep c")
    case True
    show ?thesis
    proof (cases "cur = []")
      case e: True
      with True Cons.prems(2) have "t \<in> set (split_runs sep [] s)" by simp
      then show ?thesis by (rule Cons.IH [rotated]) simp
    next
      case ne: False
      with True Cons.prems(2) have "t = rev cur \<or> t \<in> set (split_runs sep [] s)" by simp
      then show ?thesis
      proof
        assume "t = rev cur"
        with ne Cons.prems(1) show ?thesis by simp
      next
        assume "t \<in> set (split_runs sep [] s)"
        then show ?thesis by (rule Cons.IH [rotated]) simp
      qed
    qed
  next
    case False
    with Cons.prems(2) have "t \<in> set (split_runs sep (c # cur) s)" by simp
    moreover from False Cons.prems(1) have "\<forall>x \<in> set (c # cur). \<not> sep x" by simp
    ultimately show ?thesis by (rule Cons.IH [rotated])
  qed
qed

lemma isspace_upper_char: "isspace (upper_char c) = isspace c"
proof (cases "map_of (zip ascii_lowercase ascii_uppercase) c")
  case None
  then show ?thesis by (simp add: upper_char_def)
next
  case (Some d)
  then have "(c, d) \<in> set (zip ascii_lowercase ascii_uppercase)" by (rule map_of_SomeD)
  then have "c \<in> set ascii_lowercase" "d \<in> set ascii_uppercase"
    by (auto dest: set_zip_leftD set_zip_rightD)
  then have "\<not> isspace c" "\<not> isspace d"
    by (auto simp: isspace_def ascii_lowercase_def ascii_uppercase_def)
  with Some show ?thesis by (simp add: upper_char_def)
qed

lemma split_runs_upper:
  "split_runs isspace (map upper_char cur) (map upper_char s)
     = map (map upper_char) (split_runs isspace cur s)"
proof (induction s arbitrary: cur)
  case Nil
  then show ?case by (simp add: rev_map)
next
  case (Cons c s)
  from Cons [of "[]"] Cons [of "c # cur"] show ?case
    by (simp add: isspace_upper_char rev_map)
qed

lemma split_runs_all_sep:
  "\<forall>c \<in> set ws. sep c \<Longrightarrow> split_runs sep cur ws = (if cur = [] then [] else [rev cur])"
  by (induction ws arbitrary: cur) simp_all

lemma split_runs_append_sep:
  "\<forall>c \<in> set ws. sep c \<Longrightarrow> split_runs sep cur (xs @ ws) = split_runs sep cur xs"
  by (induction xs arbitrary: cur) (simp_all add: split_runs_all_sep)

lemma split_runs_dropWhile: "split_runs sep [] (dropWhile sep s) = split_runs sep [] s"
  by (induction s) simp_all

lemma split_runs_strip: "split_runs isspace [] (py_strip s) = split_runs isspace [] s"
proof -
  let ?t = "dropWhile isspace s"
  have t: "?t = py_strip s @ rev (takeWhile isspace (rev ?t))"
    unfolding py_strip_def by (metis rev_append rev_rev_ident takeWhile_dropWhile_id)
  have "\<forall>c \<in> set (rev (takeWhile isspace (rev ?t))). isspace c"
    by (auto dest: set_takeWhileD)
  then have "split_runs isspace [] (py_strip s @ rev (takeWhile isspace (rev ?t)))
               = split_runs isspace [] (py_strip s)"
    by (rule split_runs_append_sep)
  with t have "split_runs isspace [] ?t = split_runs isspace [] (py_strip s)" by simp
  then show ?thesis by (simp add: split_runs_dropWhile)
qed

lemma isspace_comma: "\<not> isspace (CHR '','')" "isspace (CHR '' '')"
  by (simp_all add: isspace_def)

lemma split_runs_replace:
  "split_runs isspace cur (py_replace (CHR '','') (CHR '' '') s) = split_runs comma_or_space cur s"
  by (induction s arbitrary: cur) (simp_all add: py_replace_def comma_or_space_def isspace_comma)

lemma foldl_fromkeys:
  "foldl (\<lambda>keys x. if x \<in> set keys then keys else keys @ [x]) acc xs
     = acc @ dedup_first (filter (\<lambda>x. x \<notin> set acc) xs)"
proof (induction xs arbitrary: acc)
  case Nil
  then show ?case by simp
next
  case (Cons x xs)
  show ?case
  proof (cases "x \<in> set acc")
    case True
    then show ?thesis by (simp add: Cons.IH)
  next
    case False
    have "removeAll x (filter (\<lambda>y. y \<notin> set acc) xs) = filter (\<lambda>y. y \<notin> set (acc @ [x])) xs"
      by (induction xs) auto
    with False show ?thesis by (simp add: Cons.IH)
  qed
qed

lemma fromkeys_dedup_first: "fromkeys xs = dedup_first xs"
  by (simp add: fromkeys_def foldl_fromkeys)

lemma set_dedup_first: "set (dedup_first xs) = set xs"
  by (induction xs rule: dedup_first.induct) auto

lemma distinct_dedup_first: "distinct (dedup_first xs)"
  by (induction xs rule: dedup_first.induct) (auto simp: set_dedup_first)

text \<open>
  First-seen order: an element that comes again does not move, and a new one goes to the
  end.
\<close>

lemma dedup_first_snoc:
  "dedup_first (xs @ [x]) = (if x \<in> set xs then dedup_first xs else dedup_first xs @ [x])"
proof -
  have "fromkeys (xs @ [x]) = (if x \<in> set (fromkeys xs) then fromkeys xs else fromkeys xs @ [x])"
    by (simp add: fromkeys_def)
  then show ?thesis by (simp add: fromkeys_dedup_first set_dedup_first)
qed

lemma methods_tokens:
  "py_split (py_upper (py_strip (py_replace (CHR '','') (CHR '' '') s)))
     = map py_upper (split_runs comma_or_space [] s)"
proof -
  have "py_split (py_upper (py_strip (py_replace (CHR '','') (CHR '' '') s)))
          = map (map upper_char) (split_runs isspace [] (py_strip (py_replace (CHR '','') (CHR '' '') s)))"
    using split_runs_upper [of "[]"] by (simp add: py_split_def py_upper_def)
  also have "\<dots> = map (map upper_char) (split_runs isspace [] (py_replace (CHR '','') (CHR '' '') s))"
    by (simp add: split_runs_strip)
  also have "\<dots> = map (map upper_char) (split_runs comma_or_space [] s)"
    by (simp add: split_runs_replace)
  finally show ?thesis by (simp add: py_upper_def [abs_def])
qed

text \<open>
  C5. The validator of the CORS allowed methods, given any ASCII string, splits it on
  commas and whitespace, upper-cases the tokens, removes duplicates preserving the
  first-seen order and joins the result with \<^verbatim>\<open>", "\<close>: the value becomes
  \<open>normalized_methods s\<close>. Given a value that is not a string it raises the validation
  error of the field \<^verbatim>\<open>value\<close>. The witness below has the input \<^verbatim>\<open>"get, GET, post"\<close>, which
  becomes \<^verbatim>\<open>"GET, POST"\<close>.
\<close>

theorem cors_allow_methods_normalizes:
  "(ascii s \<longrightarrow>
      validateCoreCorsAllowMethods (doc\<lparr>doc_value := PStr s\<rparr>)
        = Inr (doc\<lparr>doc_value := PStr (normalized_methods s)\<rparr>))
   \<and> ((\<forall>t. v \<noteq> PStr t) \<longrightarrow>
        validateCoreCorsAllowMethods (doc\<lparr>doc_value := v\<rparr>)
          = Inl (ValidationException
                   ''Allowed methods must be a comma-separated list or an empty string.''
                   (Some ''value'')))"
proof
  show "ascii s \<longrightarrow>
      validateCoreCorsAllowMethods (doc\<lparr>doc_value := PStr s\<rparr>)
        = Inr (doc\<lparr>doc_value := PStr (normalized_methods s)\<rparr>)"
    by (simp add: validateCoreCorsAllowMethods_def methods_tokens fromkeys_dedup_first
        normalized_methods_def)
next
  show "(\<forall>t. v \<noteq> PStr t) \<longrightarrow>
        validateCoreCorsAllowMethods (doc\<lparr>doc_value := v\<rparr>)
          = Inl (ValidationException
                   ''Allowed methods must be a comma-separated list or an empty string.''
                   (Some ''value''))"
    by (cases v) (simp_all add: validateCoreCorsAllowMethods_def)
qed

lemma normalized_methods_example: "normalized_methods ''get, GET, post'' = ''GET, POST''"
  by (simp add: normalized_methods_def comma_or_space_def isspace_def py_upper_def upper_char_def
      ascii_lowercase_def ascii_uppercase_def)

theorem cors_allow_methods_normalizes_witness:
  "ascii ''get, GET, post''
   \<and> validateCoreCorsAllowMethods
       \<lparr>doc_id = None, doc_key = ''core.cors.allow_methods'', doc_value = PStr ''get, GET, post''\<rparr>
     = Inr \<lparr>doc_id = None, doc_key = ''core.cors.allow_methods'', doc_value = PStr ''GET, POST''\<rparr>
   \<and> validateCoreCorsAllowMethods
       \<lparr>doc_id = None, doc_key = ''core.cors.allow_methods'', doc_value = PList [PStr ''GET'']\<rparr>
     = Inl (ValidationException
              ''Allowed methods must be a comma-separated list or an empty string.''
              (Some ''value''))"
proof -
  have a: "ascii ''get, GET, post''" by (simp add: ascii_def)
  have b: "\<forall>t. PList [PStr ''GET''] \<noteq> PStr t" by simp
  from a b cors_allow_methods_normalizes
    [where doc = "\<lparr>doc_id = None, doc_key = ''core.cors.allow_methods'', doc_value = PNone\<rparr>"
       and s = "''get, GET, post''" and v = "PList [PStr ''GET'']"]
  show ?thesis by (simp add: normalized_methods_example)
qed

section \<open>The enumeration and number validators\<close>

text \<open>
  The validator of the add-to-group policy on ASCII strings: it lower-cases the string
  and accepts it exactly when the result is one of \<^verbatim>\<open>never\<close>, \<^verbatim>\<open>noadmin\<close>, \<^verbatim>\<open>nomod\<close>,
  \<^verbatim>\<open>yesadmin\<close>, \<^verbatim>\<open>yesmod\<close> or the empty string, storing the lower-cased string; otherwise
  it raises the validation error of the field \<^verbatim>\<open>value\<close>.
\<close>

lemma add_to_group_policy_string:
  "ascii s \<Longrightarrow>
   validateCoreAddToGroupPolicy (doc\<lparr>doc_value := PStr s\<rparr>) =
     (if py_lower s \<in> {''never'', ''noadmin'', ''nomod'', ''yesadmin'', ''yesmod'', ''''}
      then Inr (doc\<lparr>doc_value := PStr (py_lower s)\<rparr>)
      else Inl (ValidationException add_to_group_policy_message (Some ''value'')))"
  by (simp add: validateCoreAddToGroupPolicy_def add_to_group_policies_def)

lemma py_lower_examples:
  "py_lower ''NOADMIN'' = ''noadmin''" "py_lower ''bogus'' = ''bogus''"
  by (simp_all add: py_lower_def lower_char_def ascii_lowercase_def ascii_uppercase_def)

lemma add_to_group_policy_examples:
  "validateCoreAddToGroupPolicy
     \<lparr>doc_id = Some 4, doc_key = ''core.add_to_group_policy'', doc_value = PStr ''NOADMIN''\<rparr>
     = Inr \<lparr>doc_id = Some 4, doc_key = ''core.add_to_group_policy'', doc_value = PStr ''noadmin''\<rparr>"
  "validateCoreAddToGroupPolicy
     \<lparr>doc_id = Some 4, doc_key = ''core.add_to_group_policy'', doc_value = PStr ''bogus''\<rparr>
     = Inl (ValidationException add_to_group_policy_message (Some ''value''))"
  using add_to_group_policy_string
      [where doc = "\<lparr>doc_id = Some 4, doc_key = ''core.add_to_group_policy'', doc_value = PNone\<rparr>"
         and s = "''NOADMIN''"]
    add_to_group_policy_string
      [where doc = "\<lparr>doc_id = Some 4, doc_key = ''core.add_to_group_policy'', doc_value = PNone\<rparr>"
         and s = "''bogus''"]
  by (simp_all add: py_lower_examples ascii_def)

text \<open>
  C7. The claim has the validator of the add-to-group policy fail with the validation
  error of the field \<^verbatim>\<open>value\<close> whenever it does not accept. The source calls
  \<^verbatim>\<open>doc['value'].lower()\<close> without a test of the type: for a number (as for \<^verbatim>\<open>None\<close>, a
  list or a dict) the call raises \<^verbatim>\<open>AttributeError\<close>, which the validator does not catch.
\<close>

theorem add_to_group_policy_number_raises_AttributeError:
  "validateCoreAddToGroupPolicy
     \<lparr>doc_id = None, doc_key = ''core.add_to_group_policy'', doc_value = PInt 5\<rparr>
     = Inl AttributeError"
  by (simp add: validateCoreAddToGroupPolicy_def)

text \<open>The same for every value that is not a string.\<close>

lemma add_to_group_policy_not_a_string:
  "validateCoreAddToGroupPolicy (doc\<lparr>doc_value := PNone\<rparr>) = Inl AttributeError
   \<and> validateCoreAddToGroupPolicy (doc\<lparr>doc_value := PBool b\<rparr>) = Inl AttributeError
   \<and> validateCoreAddToGroupPolicy (doc\<lparr>doc_value := PInt n\<rparr>) = Inl AttributeError
   \<and> validateCoreAddToGroupPolicy (doc\<lparr>doc_value := PList xs\<rparr>) = Inl AttributeError
   \<and> validateCoreAddToGroupPolicy (doc\<lparr>doc_value := PDict d\<rparr>) = Inl AttributeError
   \<and> validateCoreAddToGroupPolicy (doc\<lparr>doc_value := PObjectId i\<rparr>) = Inl AttributeError"
  by (simp add: validateCoreAddToGroupPolicy_def)

text \<open>
  The validator of the cookie lifetime on ASCII strings: a numeral greater than zero is
  accepted and stored as an integer; a numeral that is not, and a string that is no
  numeral, raise the same validation error of the field \<^verbatim>\<open>value\<close>.
\<close>

lemma cookie_lifetime_string:
  "ascii s \<Longrightarrow>
   validateCoreCookieLifetime (doc\<lparr>doc_value := PStr s\<rparr>) =
     (case int_of_string s of
        Some n \<Rightarrow>
          if 0 < n then Inr (doc\<lparr>doc_value := PInt n\<rparr>)
          else Inl (ValidationException ''Cookie lifetime must be an integer > 0.'' (Some ''value''))
      | None \<Rightarrow>
          Inl (ValidationException ''Cookie lifetime must be an integer > 0.'' (Some ''value'')))"
  by (simp add: validateCoreCookieLifetime_def split: option.splits)

lemma int_of_string_examples:
  "int_of_string ''3600'' = Some 3600" "int_of_string ''0'' = Some 0"
  "int_of_string ''ten'' = None" "int_of_string '' +1_000 '' = Some 1000"
  "int_of_string ''1__0'' = None" "int_of_string ''10_'' = None"
  by (simp_all add: int_of_string_def int_space_def parse_digits_def digit_value_def)

lemma cookie_lifetime_examples:
  "validateCoreCookieLifetime
     \<lparr>doc_id = None, doc_key = ''core.cookie_lifetime'', doc_value = PStr ''3600''\<rparr>
     = Inr \<lparr>doc_id = None, doc_key = ''core.cookie_lifetime'', doc_value = PInt 3600\<rparr>"
  "validateCoreCookieLifetime
     \<lparr>doc_id = None, doc_key = ''core.cookie_lifetime'', doc_value = PStr ''0''\<rparr>
     = Inl (ValidationException ''Cookie lifetime must be an integer > 0.'' (Some ''value''))"
  "validateCoreCookieLifetime
     \<lparr>doc_id = None, doc_key = ''core.cookie_lifetime'', doc_value = PStr ''ten''\<rparr>
     = Inl (ValidationException ''Cookie lifetime must be an integer > 0.'' (Some ''value''))"
  using cookie_lifetime_string
      [where doc = "\<lparr>doc_id = None, doc_key = ''core.cookie_lifetime'', doc_value = PNone\<rparr>"]
  by (simp_all add: int_of_string_examples ascii_def)

text \<open>
  C6. The claim has every value that does not parse as an integer fail with the
  validation error of the field \<^verbatim>\<open>value\<close>. The source catches \<^verbatim>\<open>ValueError\<close> only: for a
  list (as for \<^verbatim>\<open>None\<close> or a dict) \<^verbatim>\<open>int\<close> raises \<^verbatim>\<open>TypeError\<close>, which the validator does
  not catch.
\<close>

theorem cookie_lifetime_list_raises_TypeError:
  "validateCoreCookieLifetime
     \<lparr>doc_id = None, doc_key = ''core.cookie_lifetime'', doc_value = PList [PInt 1]\<rparr>
     = Inl TypeError"
  by (simp add: validateCoreCookieLifetime_def)

lemma cookie_lifetime_TypeError:
  "py_int v = Inl TypeError \<Longrightarrow> validateCoreCookieLifetime (doc\<lparr>doc_value := v\<rparr>) = Inl TypeError"
  by (simp add: validateCoreCookieLifetime_def)

text \<open>
  C8. The claim has the validator of the collection creation policy reject a value that
  is not an object with the validation error of the field \<^verbatim>\<open>value\<close>. The source raises the
  exception with its message alone: the error carries no field.
\<close>

theorem collection_create_policy_error_without_field:
  "validateCoreCollectionCreatePolicy load_group load_user mk_oid
     \<lparr>doc_id = None, doc_key = ''core.collection_create_policy'', doc_value = PStr ''open''\<rparr>
     = Inl (ValidationException ''Collection creation policy must be a JSON object.'' None)"
  by (simp add: validateCoreCollectionCreatePolicy_def)

lemma collection_create_policy_not_an_object:
  "(\<forall>d. v \<noteq> PDict d) \<Longrightarrow>
     validateCoreCollectionCreatePolicy load_group load_user mk_oid (doc\<lparr>doc_value := v\<rparr>)
       = Inl (ValidationException ''Collection creation policy must be a JSON object.'' None)"
  by (cases v) (simp_all add: validateCoreCollectionCreatePolicy_def)

section \<open>Reading a setting\<close>

lemma findOne_None: "findOne coll k = None \<longleftrightarrow> k \<notin> row_key ` set (documents coll)"
proof -
  have "findOne coll k = None \<longleftrightarrow> filter (\<lambda>r. row_key r = k) (documents coll) = []"
    by (cases "filter (\<lambda>r. row_key r = k) (documents coll)")
       (simp_all add: findOne_def find_settings_def)
  also have "\<dots> \<longleftrightarrow> k \<notin> row_key ` set (documents coll)"
    by (auto simp: filter_empty_conv)
  finally show ?thesis .
qed

lemma findOne_first:
  "filter (\<lambda>r. row_key r = k) (documents coll) = r # rs \<Longrightarrow> findOne coll k = Some (to_doc r)"
  by (simp add: findOne_def find_settings_def)

lemma findOne_key: "findOne coll k = Some d \<Longrightarrow> doc_key d = k"
proof -
  assume a: "findOne coll k = Some d"
  then obtain r rs where f: "filter (\<lambda>r. row_key r = k) (documents coll) = r # rs"
      and d: "d = to_doc r"
    by (auto simp: findOne_def find_settings_def split: list.splits)
  from f have "r \<in> set (filter (\<lambda>r. row_key r = k) (documents coll))" by simp
  then have "row_key r = k" by simp
  with d show ?thesis by (simp add: to_doc_def)
qed

text \<open>
  C3. \<^verbatim>\<open>getDefault(k)\<close> resolves in this order: the value of the static table
  \<^verbatim>\<open>SettingDefault.defaults\<close> when \<open>k\<close> is in it; else the result of calling the default
  function registered for \<open>k\<close>, without arguments; else \<^verbatim>\<open>None\<close>.
\<close>

theorem getDefault_resolution:
  "(setting_defaults env k = Some v \<longrightarrow> getDefault env k = v)
   \<and> (setting_defaults env k = None \<and> getDefaultFunction env k = Some fn
        \<longrightarrow> getDefault env k = fn (request env))
   \<and> (setting_defaults env k = None \<and> getDefaultFunction env k = None
        \<longrightarrow> getDefault env k = PNone)"
  by (simp add: getDefault_def)

theorem getDefault_resolution_witness:
  "getDefault sample_env ''core.cookie_lifetime'' = PInt 180
   \<and> getDefault sample_env ''core.email_host'' = PStr ''http://localhost''
   \<and> getDefault sample_env ''core.smtp_host'' = PNone"
proof -
  have a: "setting_defaults sample_env ''core.cookie_lifetime'' = Some (PInt 180)"
    by (simp add: sample_env_def)
  have b: "setting_defaults sample_env ''core.email_host'' = None
             \<and> getDefaultFunction sample_env ''core.email_host''
                 = Some (\<lambda>_. PStr ''http://localhost'')"
    by (simp add: sample_env_def getDefaultFunction_def)
  have c: "setting_defaults sample_env ''core.smtp_host'' = None
             \<and> getDefaultFunction sample_env ''core.smtp_host'' = None"
    by (simp add: sample_env_def getDefaultFunction_def)
  from a getDefault_resolution [of sample_env "''core.cookie_lifetime''" "PInt 180"]
  have 1: "getDefault sample_env ''core.cookie_lifetime'' = PInt 180" by blast
  from b getDefault_resolution [of sample_env "''core.email_host''" _ "\<lambda>_. PStr ''http://localhost''"]
  have 2: "getDefault sample_env ''core.email_host'' = PStr ''http://localhost''" by blast
  from c getDefault_resolution [of sample_env "''core.smtp_host''"]
  have 3: "getDefault sample_env ''core.smtp_host'' = PNone" by blast
  from 1 2 3 show ?thesis by simp
qed

text \<open>
  C1, as amended. When documents with the key \<open>k\<close> are stored, \<^verbatim>\<open>get\<close> returns the value
  of the first of them as it is stored, whatever the default. When none is stored,
  \<^verbatim>\<open>get(k, D)\<close> returns \<open>D\<close> for every explicit default \<open>D\<close> other than the string
  \<^verbatim>\<open>'__default__'\<close>, and \<^verbatim>\<open>get(k)\<close> returns \<^verbatim>\<open>getDefault(k)\<close>.
\<close>

theorem get_returns:
  "(filter (\<lambda>r. row_key r = k) (documents coll) = r # rs \<longrightarrow> get env coll k a = row_value r)
   \<and> (k \<notin> row_key ` set (documents coll) \<and> obj_value D \<noteq> PStr ''__default__''
        \<longrightarrow> get env coll k (Passed D) = obj_value D)
   \<and> (k \<notin> row_key ` set (documents coll) \<longrightarrow> get env coll k Omitted = getDefault env k)"
proof (intro conjI impI)
  assume "filter (\<lambda>r. row_key r = k) (documents coll) = r # rs"
  then have "findOne coll k = Some (to_doc r)" by (rule findOne_first)
  then show "get env coll k a = row_value r" by (simp add: get_def to_doc_def Let_def)
next
  assume "k \<notin> row_key ` set (documents coll) \<and> obj_value D \<noteq> PStr ''__default__''"
  then have "findOne coll k = None" "D \<noteq> DefaultConstant" by (auto simp: findOne_None)
  then show "get env coll k (Passed D) = obj_value D" by (simp add: get_def)
next
  assume "k \<notin> row_key ` set (documents coll)"
  then have "findOne coll k = None" by (simp add: findOne_None)
  then show "get env coll k Omitted = getDefault env k" by (simp add: get_def)
qed

theorem get_returns_witness:
  "get sample_env sample_collection ''legacy'' Omitted = PStr ''a''
   \<and> get sample_env sample_collection ''core.smtp_host'' (Passed (Object (PInt 25))) = PInt 25
   \<and> get sample_env sample_collection ''core.smtp_host'' Omitted
       = getDefault sample_env ''core.smtp_host''"
proof -
  have a: "filter (\<lambda>r. row_key r = ''legacy'') (documents sample_collection)
             = \<lparr>row_id = 2, row_key = ''legacy'', row_value = PStr ''a''\<rparr>
               # [\<lparr>row_id = 7, row_key = ''legacy'', row_value = PStr ''b''\<rparr>]"
    by (simp add: sample_collection_def)
  have b: "''core.smtp_host'' \<notin> row_key ` set (documents sample_collection)"
    by (simp add: sample_collection_def)
  have c: "obj_value (Object (PInt 25)) \<noteq> PStr ''__default__''" by simp
  from a get_returns [where k = "''legacy''" and coll = sample_collection and env = sample_env
      and a = Omitted]
  have 1: "get sample_env sample_collection ''legacy'' Omitted = PStr ''a''" by simp
  from b c get_returns [where k = "''core.smtp_host''" and coll = sample_collection and env = sample_env
      and D = "Object (PInt 25)"]
  have 2: "get sample_env sample_collection ''core.smtp_host'' (Passed (Object (PInt 25)))
             = obj_value (Object (PInt 25))"
    and 3: "get sample_env sample_collection ''core.smtp_host'' Omitted
              = getDefault sample_env ''core.smtp_host''"
    by blast+
  from 1 2 3 show ?thesis by simp
qed

text \<open>
  C1 as stated fails for the explicit default \<^verbatim>\<open>'__default__'\<close>, written as a constant by
  the caller: no document with the key is stored, and \<^verbatim>\<open>get\<close> returns something else
  (here \<^verbatim>\<open>None\<close>, the result of \<^verbatim>\<open>getDefault\<close>).
\<close>

theorem get_explicit_default_counterexample:
  "''core.smtp_host'' \<notin> row_key ` set (documents sample_collection)
   \<and> get sample_env sample_collection ''core.smtp_host'' (Passed DefaultConstant)
       \<noteq> obj_value DefaultConstant"
  by (simp add: sample_collection_def sample_env_def get_def findOne_def find_settings_def
      getDefault_def getDefaultFunction_def)

text \<open>
  C10, as amended. \<^verbatim>\<open>get\<close> detects a missing default by the identity of the argument
  with the string constant \<^verbatim>\<open>'__default__'\<close>. Passing that constant explicitly gives the
  same result as passing no default at all, and when no document with the key is stored
  the result is \<^verbatim>\<open>getDefault(k)\<close>, not the string. A string with the same contents that
  is another object (one built at run time) is an explicit default like any other: when
  no document with the key is stored, \<^verbatim>\<open>get\<close> returns it.
\<close>

theorem get_sentinel:
  "get env coll k (Passed DefaultConstant) = get env coll k Omitted
   \<and> (k \<notin> row_key ` set (documents coll)
        \<longrightarrow> get env coll k (Passed DefaultConstant) = getDefault env k
            \<and> get env coll k (Passed (Object v)) = v)"
  by (simp add: get_def Let_def findOne_None[symmetric])

theorem get_sentinel_witness:
  "''core.email_host'' \<notin> row_key ` set (documents sample_collection)
   \<and> get sample_env sample_collection ''core.email_host'' (Passed DefaultConstant)
       = PStr ''http://localhost''
   \<and> get sample_env sample_collection ''core.email_host'' Omitted = PStr ''http://localhost''
   \<and> get sample_env sample_collection ''core.email_host'' (Passed (Object (PStr ''__default__'')))
       = PStr ''__default__''"
proof -
  have a: "''core.email_host'' \<notin> row_key ` set (documents sample_collection)"
    by (simp add: sample_collection_def)
  have b: "getDefault sample_env ''core.email_host'' = PStr ''http://localhost''"
    by (simp add: sample_env_def getDefault_def getDefaultFunction_def)
  from a b get_sentinel [of sample_env sample_collection "''core.email_host''" "PStr ''__default__''"]
  show ?thesis by auto
qed

text \<open>
  C10 as stated fails for a string \<^verbatim>\<open>'__default__'\<close> that is not the constant: no document
  with the key is stored, the caller passes a string with these contents that was built
  at run time, and \<^verbatim>\<open>get\<close> returns that string, where \<^verbatim>\<open>getDefault\<close> and \<^verbatim>\<open>get\<close> without a
  default return something else.
\<close>

theorem get_sentinel_counterexample:
  "''core.email_host'' \<notin> row_key ` set (documents sample_collection)
   \<and> get sample_env sample_collection ''core.email_host'' (Passed (Object (PStr ''__default__'')))
       = PStr ''__default__''
   \<and> getDefault sample_env ''core.email_host'' \<noteq> PStr ''__default__''
   \<and> get sample_env sample_collection ''core.email_host'' Omitted \<noteq> PStr ''__default__''"
  by (simp add: sample_collection_def sample_env_def get_def findOne_def find_settings_def
      getDefault_def getDefaultFunction_def)

section \<open>Writing a setting\<close>

text \<open>
  C2. For a key \<open>k\<close> without a registered validator and any value, \<^verbatim>\<open>set(k, v)\<close> raises the
  validation error of the field \<^verbatim>\<open>key\<close>, and the collection is left as it was: nothing is
  persisted.
\<close>

theorem set_unregistered:
  assumes "getValidator env k = None"
  shows "set_setting env new_id coll k v =
           (Inl (ValidationException (''Invalid setting key '' @ dq @ k @ dq @ ''.'') (Some ''key'')),
            coll)"
proof (cases "findOne coll k")
  case None
  with assms show ?thesis by (simp add: set_setting_def save_def validate_def)
next
  case (Some d)
  then have "doc_key d = k" by (rule findOne_key)
  with Some assms show ?thesis by (simp add: set_setting_def save_def validate_def)
qed

theorem set_unregistered_witness:
  "getValidator sample_env ''legacy'' = None
   \<and> set_setting sample_env 9 sample_collection ''legacy'' (PStr ''c'') =
        (Inl (ValidationException (''Invalid setting key '' @ dq @ ''legacy'' @ dq @ ''.'')
           (Some ''key'')), sample_collection)"
proof -
  have h: "getValidator sample_env ''legacy'' = None"
    by (simp add: getValidator_def sample_env_def)
  show ?thesis using h set_unregistered [OF h, of 9 sample_collection "PStr ''c''"] by simp
qed

section \<open>Removing a setting\<close>

lemma delete_one_distinct:
  "distinct (map row_id rows) \<Longrightarrow> delete_one i rows = filter (\<lambda>r. row_id r \<noteq> i) rows"
proof (induction rows)
  case Nil
  then show ?case by simp
next
  case (Cons r rows)
  show ?case
  proof (cases "row_id r = i")
    case True
    with Cons.prems have "\<forall>x \<in> set rows. row_id x \<noteq> i" by (auto simp: image_iff)
    then have "filter (\<lambda>r. row_id r \<noteq> i) rows = rows" by (simp add: filter_id_conv)
    with True show ?thesis by simp
  next
    case False
    with Cons show ?thesis by simp
  qed
qed

lemma remove_each_distinct:
  "distinct (map row_id (documents coll)) \<Longrightarrow>
   remove_each (map to_doc rs) coll =
     (Inr (), coll\<lparr>documents := filter (\<lambda>r. row_id r \<notin> row_id ` set rs) (documents coll)\<rparr>)"
proof (induction rs arbitrary: coll)
  case Nil
  then show ?case by simp
next
  case (Cons r rs)
  let ?coll' = "coll\<lparr>documents := filter (\<lambda>x. row_id x \<noteq> row_id r) (documents coll)\<rparr>"
  from Cons.prems have rm: "remove (to_doc r) coll = (Inr (), ?coll')"
    by (simp add: remove_def to_doc_def delete_one_distinct)
  from Cons.prems have "distinct (map row_id (documents ?coll'))"
    by (simp add: distinct_map_filter)
  from Cons.IH [OF this] rm show ?case
    by (simp add: conj_commute cong: conj_cong)
qed

lemma unset_removes:
  assumes "distinct (map row_id (documents coll))"
  shows "unset coll k = (Inr (), coll\<lparr>documents := filter (\<lambda>r. row_key r \<noteq> k) (documents coll)\<rparr>)"
proof -
  let ?rs = "filter (\<lambda>r. row_key r = k) (documents coll)"
  from assms have inj: "inj_on row_id (set (documents coll))" by (simp add: distinct_map)
  have "filter (\<lambda>r. row_id r \<notin> row_id ` set ?rs) (documents coll)
          = filter (\<lambda>r. row_key r \<noteq> k) (documents coll)"
  proof (rule filter_cong [OF refl])
    fix r assume r: "r \<in> set (documents coll)"
    show "(row_id r \<notin> row_id ` set ?rs) = (row_key r \<noteq> k)"
    proof
      assume "row_id r \<notin> row_id ` set ?rs"
      with r show "row_key r \<noteq> k" by auto
    next
      assume nk: "row_key r \<noteq> k"
      show "row_id r \<notin> row_id ` set ?rs"
      proof
        assume "row_id r \<in> row_id ` set ?rs"
        then obtain r' where r': "r' \<in> set (documents coll)" "row_key r' = k" "row_id r = row_id r'"
          by auto
        with inj r have "r = r'" by (auto dest: inj_onD)
        with r' nk show False by simp
      qed
    qed
  qed
  with remove_each_distinct [OF assms, of ?rs] show ?thesis
    by (simp add: unset_def find_settings_def)
qed

lemma unset_no_match:
  "k \<notin> row_key ` set (documents coll) \<Longrightarrow> unset coll k = (Inr (), coll)"
proof -
  assume "k \<notin> row_key ` set (documents coll)"
  then have "filter (\<lambda>r. row_key r = k) (documents coll) = []"
    by (auto simp: filter_empty_conv)
  then show ?thesis by (simp add: unset_def find_settings_def)
qed

text \<open>
  C9, as amended. In a collection whose \<^verbatim>\<open>_id\<close> values are distinct, \<^verbatim>\<open>unset(k)\<close> returns
  normally and removes every stored document with the key \<open>k\<close> and nothing else; after
  it, \<^verbatim>\<open>get(k, D)\<close> returns \<open>D\<close> for every default \<open>D\<close> other than the string
  \<^verbatim>\<open>'__default__'\<close>. When no document has the key, \<^verbatim>\<open>unset(k)\<close> changes nothing and raises
  nothing.
\<close>

theorem unset_then_get:
  assumes "distinct (map row_id (documents coll))"
  shows "unset coll k = (Inr (), coll\<lparr>documents := filter (\<lambda>r. row_key r \<noteq> k) (documents coll)\<rparr>)
         \<and> (obj_value D \<noteq> PStr ''__default__''
              \<longrightarrow> get env (snd (unset coll k)) k (Passed D) = obj_value D)
         \<and> (k \<notin> row_key ` set (documents coll) \<longrightarrow> unset coll k = (Inr (), coll))"
proof (intro conjI impI)
  let ?coll' = "coll\<lparr>documents := filter (\<lambda>r. row_key r \<noteq> k) (documents coll)\<rparr>"
  show u: "unset coll k = (Inr (), ?coll')" using assms by (rule unset_removes)
  have none: "findOne ?coll' k = None" unfolding findOne_None by auto
  assume "obj_value D \<noteq> PStr ''__default__''"
  then have "D \<noteq> DefaultConstant" by auto
  with none u show "get env (snd (unset coll k)) k (Passed D) = obj_value D"
    by (simp add: get_def)
next
  assume "k \<notin> row_key ` set (documents coll)"
  then show "unset coll k = (Inr (), coll)" by (rule unset_no_match)
qed

theorem unset_then_get_witness:
  "distinct (map row_id (documents sample_collection))
   \<and> unset sample_collection ''legacy'' =
       (Inr (), sample_collection\<lparr>documents :=
          [\<lparr>row_id = 5, row_key = ''core.cookie_lifetime'', row_value = PInt 30\<rparr>,
           \<lparr>row_id = 3, row_key = ''core.cookie_lifetime'', row_value = PInt 60\<rparr>]\<rparr>)
   \<and> get sample_env (snd (unset sample_collection ''legacy'')) ''legacy''
         (Passed (Object (PStr ''x''))) = PStr ''x''
   \<and> unset sample_collection ''core.smtp_host'' = (Inr (), sample_collection)"
proof -
  have d: "distinct (map row_id (documents sample_collection))"
    by (simp add: sample_collection_def)
  have f: "filter (\<lambda>r. row_key r \<noteq> ''legacy'') (documents sample_collection)
             = [\<lparr>row_id = 5, row_key = ''core.cookie_lifetime'', row_value = PInt 30\<rparr>,
                \<lparr>row_id = 3, row_key = ''core.cookie_lifetime'', row_value = PInt 60\<rparr>]"
    by (simp add: sample_collection_def)
  have x: "obj_value (Object (PStr ''x'')) \<noteq> PStr ''__default__''" by simp
  have n: "''core.smtp_host'' \<notin> row_key ` set (documents sample_collection)"
    by (simp add: sample_collection_def)
  note t = unset_then_get [OF d, of "''legacy''" "Object (PStr ''x'')" sample_env]
  from t f
  have 1: "unset sample_collection ''legacy'' =
       (Inr (), sample_collection\<lparr>documents :=
          [\<lparr>row_id = 5, row_key = ''core.cookie_lifetime'', row_value = PInt 30\<rparr>,
           \<lparr>row_id = 3, row_key = ''core.cookie_lifetime'', row_value = PInt 60\<rparr>]\<rparr>)"
    by simp
  from t x
  have 2: "get sample_env (snd (unset sample_collection ''legacy'')) ''legacy''
             (Passed (Object (PStr ''x''))) = PStr ''x''"
    by auto
  from unset_then_get [OF d, of "''core.smtp_host''"] n
  have 3: "unset sample_collection ''core.smtp_host'' = (Inr (), sample_collection)" by blast
  from d 1 2 3 show ?thesis by blast
qed

text \<open>
  C9 as stated fails for the default \<^verbatim>\<open>'__default__'\<close>, written as a constant: after \<^verbatim>\<open>unset\<close> no document with the
  key is left, and \<^verbatim>\<open>get\<close> with that default returns the result of \<^verbatim>\<open>getDefault\<close> instead
  (here \<^verbatim>\<open>None\<close>).
\<close>

theorem unset_then_get_counterexample:
  "fst (unset sample_collection ''legacy'') = Inr ()
   \<and> ''legacy'' \<notin> row_key ` set (documents (snd (unset sample_collection ''legacy'')))
   \<and> get sample_env (snd (unset sample_collection ''legacy'')) ''legacy''
         (Passed DefaultConstant) \<noteq> obj_value DefaultConstant"
  by (simp add: unset_def find_settings_def remove_def to_doc_def sample_collection_def
      sample_env_def get_def findOne_def getDefault_def getDefaultFunction_def)

section \<open>Properties of the index repair\<close>

subsection \<open>The scan of the indexes\<close>



subsection \<open>Dropping the indexes on key that are not unique\<close>



subsection \<open>Deleting the duplicates\<close>










subsection \<open>Creating the unique index\<close>


subsection \<open>When the index information cannot be read\<close>


subsection \<open>The repair\<close>





text \<open>
  On a collection that does not exist yet the repair creates the collection with its
  index \<^verbatim>\<open>_id_\<close> and the unique index, whether the index information can be read or not.
\<close>

lemma reconnect_fresh:
  "reconnect unavailable \<lparr>documents = [], indexes = []\<rparr>
     = (Inr (), \<lparr>documents = [], indexes = [(''_id_'', id_index), (''key_1'', key_index)]\<rparr>)"
  by (cases unavailable)
     (simp_all add: reconnect_def model_reconnect_def index_information_def
        aggregate_duplicates_def create_index_key_unique_def implicit_create_def Let_def)

end
